theory Spec2Isabelle
  imports Main "HOL-Library.Word"
begin

section \<open>Data of the transaction manager\<close>

text \<open>
  The manager of \<^verbatim>\<open>node/transaction/manager.go\<close> talks to a chain node through
  go-ethereum and the generated contract binding, and to the rest of the process through
  an in-process publish/subscribe bus. Chain addresses are 20 bytes, hashes 32 bytes;
  \<^verbatim>\<open>big.Int\<close> values are unbounded integers, \<^verbatim>\<open>int64\<close> values 64-bit words.
  Error values are represented by their message (\<^verbatim>\<open>err.Error()\<close>). Log output is
  left out: it does not influence any result.
\<close>

type_synonym address = "160 word"
type_synonym hash = "256 word"
type_synonym int64 = "64 word"
type_synonym client = nat
type_synonym abi = nat
type_synonym privkey = "256 word"
type_synonym cid = string

record BasisCfg =
  LotusWsAddr :: string
  LotusHTTPSAddr :: string
  TitanContractorAddr :: string
  PrivateKeyStr :: string

text \<open>\<^verbatim>\<open>etypes.Log\<close> (the fields the manager reads) and \<^verbatim>\<open>fvm.AbiTransfer\<close>.\<close>

record Log =
  TxHash :: hash
  BlockNumber :: int64
  Removed :: bool

record AbiTransfer =
  tr_From :: address
  tr_To :: address
  tr_Value :: int
  tr_Raw :: Log

text \<open>
  The bus payloads as \<^verbatim>\<open>manager.go\<close> builds and reads them: \<^verbatim>\<open>FvmTransferWatch\<close>
  with fields \<^verbatim>\<open>ID, From, To, Value\<close> where \<^verbatim>\<open>Value\<close> receives the result of
  \<^verbatim>\<open>big.Int.Int64()\<close>; \<^verbatim>\<open>FvmTransferReq\<close> with \<^verbatim>\<open>ID, To, Value\<close>;
  \<^verbatim>\<open>FvmTransferRep\<close> with \<^verbatim>\<open>ID, TxHash, Msg\<close>.
\<close>

record FvmTransferWatch =
  fw_ID :: string
  fw_From :: string
  fw_To :: string
  fw_Value :: int64

record FvmTransferReq =
  req_ID :: string
  req_To :: string
  req_Value :: string

record FvmTransferRep =
  rep_ID :: string
  rep_TxHash :: string
  rep_Msg :: string

datatype payload =
  WatchP FvmTransferWatch
| ReqP FvmTransferReq
| RepP FvmTransferRep

datatype EventTopics = EventTransferWatch | EventTransferReq | EventTransferRep

text \<open>\<^verbatim>\<open>bind.TransactOpts\<close>: the signer closes over the chain id and the private key.\<close>

record TransactOpts =
  Signer_chainID :: int
  Signer_key :: privkey
  opt_From :: address

record Transaction =
  tx_Hash :: hash

text \<open>
  The package's \<^verbatim>\<open>tipSet\<close>, \<^verbatim>\<open>message\<close> and \<^verbatim>\<open>lookup\<close>, by the fields read;
  the two addresses of a message by their \<^verbatim>\<open>String()\<close> rendering.
\<close>

record tipSet =
  ts_Height :: int64

record message =
  msg_From :: string
  msg_To :: string
  msg_Value :: int

record receipt =
  ExitCode :: int64
  GasUsed :: int64

record lookup =
  lk_Height :: int64
  lk_Receipt :: receipt

section \<open>The outside world\<close>

text \<open>
  Every call that leaves the process is answered by the world: a failing call yields
  \<open>Inl\<close> of the error message. \<open>WatchTransfer w a n\<close> is the outcome of the
  \<open>n\<close>-th subscription attempt on binding \<open>a\<close> (\<open>None\<close>: subscribed).
  \<open>BalanceOf\<close> returns the Go pair (value, error) that the binding returns.
  The pure library functions used (address parsing, key derivation, hex rendering) are
  carried along as well. \<open>Public_ok\<close> is the outcome of the type assertion on the public
  key, and \<open>SetString_failed\<close> the value a \<^verbatim>\<open>big.Int\<close> holds after a failed
  \<^verbatim>\<open>SetString\<close>, which the library leaves undefined.
\<close>

record world =
  Dial :: "string \<Rightarrow> string + client"
  NewAbi :: "address \<Rightarrow> client \<Rightarrow> string + abi"
  WatchTransfer :: "abi \<Rightarrow> nat \<Rightarrow> string option"
  NetworkID :: "client \<Rightarrow> string + int"
  AbiMint :: "abi \<Rightarrow> TransactOpts \<Rightarrow> address \<Rightarrow> int \<Rightarrow> string + Transaction"
  AbiTransfer :: "abi \<Rightarrow> TransactOpts \<Rightarrow> address \<Rightarrow> int \<Rightarrow> string + Transaction"
  BalanceOf :: "abi \<Rightarrow> address \<Rightarrow> int option \<times> string option"
  ChainHead :: "string \<Rightarrow> string + tipSet"
  EthGetMessageCidByTransactionHash :: "string \<Rightarrow> string \<Rightarrow> string + cid"
  ChainGetMessage :: "cid \<Rightarrow> string \<Rightarrow> string + message"
  StateSearchMsg :: "cid \<Rightarrow> string \<Rightarrow> string + lookup"
  HexToAddress :: "string \<Rightarrow> address"
  HexToECDSA :: "string \<Rightarrow> string + privkey"
  Public_ok :: "privkey \<Rightarrow> bool"
  PubkeyToAddress :: "privkey \<Rightarrow> address"
  Address_Hex :: "address \<Rightarrow> string"
  Hash_Hex :: "hash \<Rightarrow> string"
  SetString_failed :: "string \<Rightarrow> int"

text \<open>The calls a function makes, in order: its observable effects.\<close>

datatype call =
  Call_Dial string
| Call_NewAbi address client
| Call_WatchTransfer abi nat
| Call_NetworkID client
| Call_Mint abi TransactOpts address int
| Call_Transfer abi TransactOpts address int
| Call_BalanceOf abi address
| Call_ChainHead string
| Call_EthGetMessageCid string string
| Call_ChainGetMessage cid string
| Call_StateSearchMsg cid string
| Sub EventTopics
| Unsub EventTopics
| Pub payload EventTopics

section \<open>Amounts\<close>

text \<open>
  \<^verbatim>\<open>big.Int.SetString(s, 10)\<close>: an optional sign, then at least one decimal digit, and
  nothing else; \<open>None\<close> when the string is not of that form. A byte is a digit when
  it lies between the bytes of 0 and 9, and its value is the distance from the byte of 0.
\<close>

definition digitVal :: "char \<Rightarrow> nat option" where
  "digitVal ch =
     (let n = (of_char ch :: nat)
      in if of_char (CHR ''0'') \<le> n \<and> n \<le> of_char (CHR ''9'')
         then Some (n - of_char (CHR ''0'')) else None)"

fun scan_digits :: "nat \<Rightarrow> string \<Rightarrow> nat option" where
  "scan_digits acc [] = Some acc"
| "scan_digits acc (c # cs) =
     (case digitVal c of None \<Rightarrow> None | Some d \<Rightarrow> scan_digits (acc * 10 + d) cs)"

definition SetString :: "string \<Rightarrow> int option" where
  "SetString s =
     (case s of
        [] \<Rightarrow> None
      | c # cs \<Rightarrow>
          (let neg = (c = CHR ''-'');
               ds = (if c = CHR ''-'' \<or> c = CHR ''+'' then cs else s)
           in if ds = [] then None
              else (case scan_digits 0 ds of
                      None \<Rightarrow> None
                    | Some n \<Rightarrow> Some (if neg then - int n else int n))))"

text \<open>
  \<^verbatim>\<open>amount := new(big.Int); amount.SetString(valueStr, 10)\<close>: the result flag of
  \<^verbatim>\<open>SetString\<close> is ignored by the manager.
\<close>

definition parse_amount :: "world \<Rightarrow> string \<Rightarrow> int" where
  "parse_amount w valueStr =
     (case SetString valueStr of Some v \<Rightarrow> v | None \<Rightarrow> SetString_failed w valueStr)"

text \<open>
  \<^verbatim>\<open>big.Int.Int64()\<close>: the low 64 bits of the magnitude, negated when the number is
  negative.
\<close>

definition Int64 :: "int \<Rightarrow> int64" where
  "Int64 x = (let v = (word_of_int (\<bar>x\<bar> mod 2 ^ 64) :: int64) in if x < 0 then - v else v)"

section \<open>Outbound transactions\<close>

text \<open>
  \<^verbatim>\<open>Manager.Mint\<close> and \<^verbatim>\<open>Manager.Transfer\<close> return the Go pair (hash string, error),
  here together with the calls made.
\<close>

definition Mint :: "world \<Rightarrow> BasisCfg \<Rightarrow> string \<Rightarrow> string \<Rightarrow> (string \<times> string option) \<times> call list" where
  "Mint w cfg toAddr valueStr =
     (let t1 = [Call_Dial (LotusHTTPSAddr cfg)] in
      case Dial w (LotusHTTPSAddr cfg) of
        Inl e \<Rightarrow> (('''', Some (''Dial err:'' @ e)), t1)
      | Inr client \<Rightarrow>
         (let tokenAddress = HexToAddress w (TitanContractorAddr cfg);
              t2 = t1 @ [Call_NewAbi tokenAddress client] in
          case NewAbi w tokenAddress client of
            Inl e \<Rightarrow> (('''', Some (''NewAbi err:'' @ e)), t2)
          | Inr myAbi \<Rightarrow>
             (case HexToECDSA w (PrivateKeyStr cfg) of
                Inl e \<Rightarrow> (('''', Some (''HexToECDSA err:'' @ e)), t2)
              | Inr privateKey \<Rightarrow>
                  if \<not> Public_ok w privateKey then (('''', Some ''publicKey err:''), t2)
                  else
                   (let fromAddress = PubkeyToAddress w privateKey;
                        amount = parse_amount w valueStr;
                        t3 = t2 @ [Call_NetworkID client] in
                    case NetworkID w client of
                      Inl e \<Rightarrow> (('''', Some (''NetworkID err:'' @ e)), t3)
                    | Inr chainID \<Rightarrow>
                       (let opt = \<lparr>Signer_chainID = chainID, Signer_key = privateKey,
                                   opt_From = fromAddress\<rparr>;
                            t4 = t3 @ [Call_Mint myAbi opt (HexToAddress w toAddr) amount] in
                        case AbiMint w myAbi opt (HexToAddress w toAddr) amount of
                          Inl e \<Rightarrow> (('''', Some (''Mint err:'' @ e)), t4)
                        | Inr tr \<Rightarrow> ((Hash_Hex w (tx_Hash tr), None), t4))))))"

definition Transfer :: "world \<Rightarrow> BasisCfg \<Rightarrow> string \<Rightarrow> string \<Rightarrow> (string \<times> string option) \<times> call list" where
  "Transfer w cfg toAddr valueStr =
     (let t1 = [Call_Dial (LotusHTTPSAddr cfg)] in
      case Dial w (LotusHTTPSAddr cfg) of
        Inl e \<Rightarrow> (('''', Some (''Dial err:'' @ e)), t1)
      | Inr client \<Rightarrow>
         (case HexToECDSA w (PrivateKeyStr cfg) of
            Inl e \<Rightarrow> (('''', Some (''HexToECDSA err:'' @ e)), t1)
          | Inr privateKey \<Rightarrow>
              if \<not> Public_ok w privateKey then (('''', Some ''publicKey err:''), t1)
              else
               (let fromAddress = PubkeyToAddress w privateKey;
                    toAddress = HexToAddress w toAddr;
                    tokenAddress = HexToAddress w (TitanContractorAddr cfg);
                    t2 = t1 @ [Call_NewAbi tokenAddress client] in
                case NewAbi w tokenAddress client of
                  Inl e \<Rightarrow> (('''', Some (''NewAbi err:'' @ e)), t2)
                | Inr myAbi \<Rightarrow>
                   (let amount = parse_amount w valueStr;
                        t3 = t2 @ [Call_NetworkID client] in
                    case NetworkID w client of
                      Inl e \<Rightarrow> (('''', Some (''NetworkID err:'' @ e)), t3)
                    | Inr chainID \<Rightarrow>
                       (let to = \<lparr>Signer_chainID = chainID, Signer_key = privateKey,
                                  opt_From = fromAddress\<rparr>;
                            t4 = t3 @ [Call_Transfer myAbi to toAddress amount] in
                        case AbiTransfer w myAbi to toAddress amount of
                          Inl e \<Rightarrow> (('''', Some (''Transfer err:'' @ e)), t4)
                        | Inr signedTx \<Rightarrow> ((Hash_Hex w (tx_Hash signedTx), None), t4))))))"

section \<open>The chain watcher\<close>

text \<open>
  What the \<^verbatim>\<open>select\<close> of \<^verbatim>\<open>watchTransactions\<close> receives: a value from the
  subscription's error channel (possibly \<^verbatim>\<open>nil\<close>), or a transfer from the sink.
  The loop has no exit of its own but one \<^verbatim>\<open>return\<close>; on a finite sequence of
  received values it has either returned an error or is \<open>Running\<close>, blocked in the
  \<^verbatim>\<open>select\<close>. The counter is the number of subscription attempts made so far.
\<close>

datatype select_event = SubErr "string option" | SinkTr AbiTransfer

datatype watch_result = Returned string | Running

fun watch_loop :: "world \<Rightarrow> abi \<Rightarrow> nat \<Rightarrow> select_event list \<Rightarrow> watch_result \<times> call list" where
  "watch_loop w myAbi n [] = (Running, [])"
| "watch_loop w myAbi n (SubErr None # es) = watch_loop w myAbi n es"
| "watch_loop w myAbi n (SubErr (Some err) # es) =
     (case WatchTransfer w myAbi n of
        Some e \<Rightarrow> (Returned (''Transfer err:'' @ e), [Call_WatchTransfer myAbi n])
      | None \<Rightarrow>
          (let (r, t) = watch_loop w myAbi (Suc n) es
           in (r, Call_WatchTransfer myAbi n # t)))"
| "watch_loop w myAbi n (SinkTr tr # es) =
     (if \<not> Removed (tr_Raw tr)
      then (let (r, t) = watch_loop w myAbi n es
            in (r, Pub (WatchP \<lparr>fw_ID = Hash_Hex w (TxHash (tr_Raw tr)),
                                 fw_From = Address_Hex w (tr_From tr),
                                 fw_To = Address_Hex w (tr_To tr),
                                 fw_Value = Int64 (tr_Value tr)\<rparr>) EventTransferWatch # t))
      else watch_loop w myAbi n es)"

definition watchTransactions :: "world \<Rightarrow> BasisCfg \<Rightarrow> select_event list \<Rightarrow> watch_result \<times> call list" where
  "watchTransactions w cfg es =
     (let t1 = [Call_Dial (LotusWsAddr cfg)] in
      case Dial w (LotusWsAddr cfg) of
        Inl e \<Rightarrow> (Returned (''Dial err:'' @ e), t1)
      | Inr client \<Rightarrow>
         (let tokenAddress = HexToAddress w (TitanContractorAddr cfg);
              t2 = t1 @ [Call_NewAbi tokenAddress client] in
          case NewAbi w tokenAddress client of
            Inl e \<Rightarrow> (Returned (''NewAbi err:'' @ e), t2)
          | Inr myAbi \<Rightarrow>
             (let t3 = t2 @ [Call_WatchTransfer myAbi 0] in
              case WatchTransfer w myAbi 0 of
                Some e \<Rightarrow> (Returned (''WatchTransfer err:'' @ e), t3)
              | None \<Rightarrow>
                  (let (r, t) = watch_loop w myAbi 1 es in (r, t3 @ t)))))"

section \<open>Transfer requests from the bus\<close>

text \<open>
  \<^verbatim>\<open>subscribeEvents\<close> receives payloads from the request topic, each at a moment when
  the world answers in some way. The unchecked type assertion panics on any payload
  that is not a transfer request; the deferred \<^verbatim>\<open>Unsub\<close> runs then.
\<close>

datatype sub_result = Panicked | Waiting

fun subscribe_loop :: "BasisCfg \<Rightarrow> (world \<times> payload) list \<Rightarrow> sub_result \<times> call list" where
  "subscribe_loop cfg [] = (Waiting, [])"
| "subscribe_loop cfg ((w, ReqP tr) # us) =
     (let ((hash, err), t1) = Mint w cfg (req_To tr) (req_Value tr);
          msg = (case err of Some e \<Rightarrow> e | None \<Rightarrow> '''');
          (r, t2) = subscribe_loop cfg us
      in (r, t1 @ Pub (RepP \<lparr>rep_ID = req_ID tr, rep_TxHash = hash, rep_Msg = msg\<rparr>)
                      EventTransferRep # t2))"
| "subscribe_loop cfg ((w, u) # us) = (Panicked, [Unsub EventTransferReq])"

definition subscribeEvents :: "BasisCfg \<Rightarrow> (world \<times> payload) list \<Rightarrow> sub_result \<times> call list" where
  "subscribeEvents cfg us =
     (let (r, t) = subscribe_loop cfg us in (r, Sub EventTransferReq # t))"

section \<open>Ledger queries\<close>

definition GetHeight :: "world \<Rightarrow> BasisCfg \<Rightarrow> int64 \<times> call list" where
  "GetHeight w cfg =
     (case ChainHead w (LotusHTTPSAddr cfg) of
        Inl e \<Rightarrow> (0, [Call_ChainHead (LotusHTTPSAddr cfg)])
      | Inr msg \<Rightarrow> (ts_Height msg, [Call_ChainHead (LotusHTTPSAddr cfg)]))"

definition GetBalance :: "world \<Rightarrow> BasisCfg \<Rightarrow> string \<Rightarrow> (int option \<times> string option) \<times> call list" where
  "GetBalance w cfg addr =
     (let t1 = [Call_Dial (LotusHTTPSAddr cfg)] in
      case Dial w (LotusHTTPSAddr cfg) of
        Inl e \<Rightarrow> ((Some 0, Some (''Dial err:'' @ e)), t1)
      | Inr client \<Rightarrow>
         (let tokenAddress = HexToAddress w (TitanContractorAddr cfg);
              t2 = t1 @ [Call_NewAbi tokenAddress client] in
          case NewAbi w tokenAddress client of
            Inl e \<Rightarrow> ((Some 0, Some (''NewAbi err:'' @ e)), t2)
          | Inr myAbi \<Rightarrow>
              (BalanceOf w myAbi (HexToAddress w addr),
               t2 @ [Call_BalanceOf myAbi (HexToAddress w addr)])))"

definition CheckMessage :: "world \<Rightarrow> BasisCfg \<Rightarrow> string \<Rightarrow> string option \<times> call list" where
  "CheckMessage w cfg tx =
     (let t1 = [Call_EthGetMessageCid tx (LotusHTTPSAddr cfg)] in
      case EthGetMessageCidByTransactionHash w tx (LotusHTTPSAddr cfg) of
        Inl e \<Rightarrow> (Some e, t1)
      | Inr cid \<Rightarrow>
         (let t2 = t1 @ [Call_ChainGetMessage cid (LotusHTTPSAddr cfg)] in
          case ChainGetMessage w cid (LotusHTTPSAddr cfg) of
            Inl e \<Rightarrow> (Some e, t2)
          | Inr msg \<Rightarrow>
             (let t3 = t2 @ [Call_StateSearchMsg cid (LotusHTTPSAddr cfg)] in
              case StateSearchMsg w cid (LotusHTTPSAddr cfg) of
                Inl e \<Rightarrow> (Some e, t3)
              | Inr info \<Rightarrow>
                  if ExitCode (lk_Receipt info) = 0
                  then (None, t3 @ [Pub (WatchP \<lparr>fw_ID = tx,
                                                  fw_From = msg_From msg,
                                                  fw_To = msg_To msg,
                                                  fw_Value = Int64 (msg_Value msg)\<rparr>)
                                        EventTransferWatch])
                  else (None, t3))))"

section \<open>Instance provisioning\<close>

text \<open>
  \<^verbatim>\<open>lib/aliyun/aliyun.go\<close>. An \<^verbatim>\<open>error\<close> is either an SDK error or any other error,
  known by its message. Pointer fields of SDK structures are options. A \<^verbatim>\<open>float32\<close>
  is carried as its 32 bits. A panic inside the guarded closure is recovered into an
  error with the panic's text, so an SDK call that panics is an SDK call that answers
  \<open>Other\<close> of that text.
\<close>

type_synonym int32 = "32 word"
type_synonym float32 = "32 word"
type_synonym ecs_client = nat

record SDKError =
  sdk_Code :: "string option"
  sdk_Message :: "string option"

datatype go_error = SDK SDKError | Other string

record Config =
  AccessKeyId :: string
  AccessKeySecret :: string
  RegionId :: string

record CreateInstanceRequest =
  ci_RegionId :: string
  ci_InstanceType :: string
  ci_DryRun :: bool
  ci_ImageId :: string
  ci_SecurityGroupId :: string
  ci_InstanceChargeType :: string
  ci_PeriodUnit :: string
  ci_Period :: int32
  ci_InternetMaxBandwidthOut :: int32
  ci_InternetMaxBandwidthIn :: int32
  ci_SystemDisk_Size :: int32

record RunInstancesRequest =
  ri_RegionId :: string
  ri_InstanceType :: string
  ri_DryRun :: bool
  ri_ImageId :: string
  ri_SecurityGroupId :: string
  ri_InstanceChargeType :: string
  ri_PeriodUnit :: string
  ri_Period :: int32
  ri_Password :: string
  ri_InternetMaxBandwidthOut :: int32
  ri_InternetMaxBandwidthIn :: int32

record CreateInstanceResponseBody =
  cb_InstanceId :: "string option"
  cb_OrderId :: "string option"
  cb_RequestId :: "string option"
  cb_TradePrice :: "float32 option"

record RunInstancesResponseBody =
  rb_InstanceIdSets :: "string option list option"
  rb_OrderId :: "string option"
  rb_RequestId :: "string option"
  rb_TradePrice :: "float32 option"

record CreateInstanceResponse =
  InstanceID :: string
  OrderId :: string
  RequestId :: string
  TradePrice :: float32
  PublicIpAddress :: string
  PrivateKey :: string
  PrivateKeyStatus :: int

record ecs =
  NewClient :: "Config \<Rightarrow> go_error + ecs_client"
  CreateInstanceWithOptions ::
    "ecs_client \<Rightarrow> CreateInstanceRequest \<Rightarrow> go_error + CreateInstanceResponseBody option"
  RunInstancesWithOptions ::
    "ecs_client \<Rightarrow> RunInstancesRequest \<Rightarrow> go_error + RunInstancesResponseBody option"

datatype ecs_call =
  Call_NewClient Config
| Call_CreateInstance ecs_client CreateInstanceRequest
| Call_RunInstances ecs_client RunInstancesRequest

definition nil_deref :: string where
  "nil_deref = ''runtime error: invalid memory address or nil pointer dereference''"

definition index_out_of_range :: string where
  "index_out_of_range = ''runtime error: index out of range [0] with length 0''"

text \<open>The conversion both functions and \<^verbatim>\<open>newClient\<close> apply to a failure.\<close>

definition to_SDKError :: "go_error \<Rightarrow> SDKError" where
  "to_SDKError err =
     (case err of SDK t \<Rightarrow> t | Other m \<Rightarrow> \<lparr>sdk_Code = None, sdk_Message = Some m\<rparr>)"

definition newClient :: "ecs \<Rightarrow> string \<Rightarrow> string \<Rightarrow> string \<Rightarrow> SDKError + ecs_client" where
  "newClient E regionID keyID keySecret =
     (let configClient = \<lparr>AccessKeyId = keyID, AccessKeySecret = keySecret, RegionId = regionID\<rparr>
      in case NewClient E configClient of
           Inl err \<Rightarrow> Inl (to_SDKError err)
         | Inr client \<Rightarrow> Inr client)"

text \<open>Reading the response: the first nil pointer met panics.\<close>

definition read_create_response :: "CreateInstanceResponseBody option \<Rightarrow> string + CreateInstanceResponse" where
  "read_create_response result =
     (case result of
        None \<Rightarrow> Inl nil_deref
      | Some body \<Rightarrow>
         (case (cb_InstanceId body, cb_OrderId body, cb_RequestId body, cb_TradePrice body) of
            (Some i, Some ord, Some r, Some p) \<Rightarrow>
              Inr \<lparr>InstanceID = i, OrderId = ord, RequestId = r, TradePrice = p,
                   PublicIpAddress = '''', PrivateKey = '''', PrivateKeyStatus = 0\<rparr>
          | _ \<Rightarrow> Inl nil_deref))"

definition read_run_response :: "RunInstancesResponseBody option \<Rightarrow> string + CreateInstanceResponse" where
  "read_run_response result =
     (case result of
        None \<Rightarrow> Inl nil_deref
      | Some body \<Rightarrow>
         (case rb_InstanceIdSets body of
            None \<Rightarrow> Inl nil_deref
          | Some [] \<Rightarrow> Inl index_out_of_range
          | Some (None # _) \<Rightarrow> Inl nil_deref
          | Some (Some i # _) \<Rightarrow>
             (case (rb_OrderId body, rb_RequestId body, rb_TradePrice body) of
                (Some ord, Some r, Some p) \<Rightarrow>
                  Inr \<lparr>InstanceID = i, OrderId = ord, RequestId = r, TradePrice = p,
                       PublicIpAddress = '''', PrivateKey = '''', PrivateKeyStatus = 0\<rparr>
              | _ \<Rightarrow> Inl nil_deref)))"

definition CreateInstance ::
  "ecs \<Rightarrow> string \<Rightarrow> string \<Rightarrow> string \<Rightarrow> string \<Rightarrow> string \<Rightarrow> string \<Rightarrow> string \<Rightarrow> int32 \<Rightarrow> bool
     \<Rightarrow> (CreateInstanceResponse option \<times> SDKError option) \<times> ecs_call list" where
  "CreateInstance E regionID keyID keySecret instanceType imageID securityGroupID periodUnit
                  period dryRun =
     (let t1 = [Call_NewClient \<lparr>AccessKeyId = keyID, AccessKeySecret = keySecret,
                                RegionId = regionID\<rparr>] in
      case newClient E regionID keyID keySecret of
        Inl err \<Rightarrow> ((None, Some err), t1)
      | Inr client \<Rightarrow>
         (let createInstanceRequest =
                \<lparr>ci_RegionId = regionID,
                 ci_InstanceType = instanceType,
                 ci_DryRun = dryRun,
                 ci_ImageId = imageID,
                 ci_SecurityGroupId = securityGroupID,
                 ci_InstanceChargeType = ''PrePaid'',
                 ci_PeriodUnit = periodUnit,
                 ci_Period = period,
                 ci_InternetMaxBandwidthOut = 1,
                 ci_InternetMaxBandwidthIn = 1,
                 ci_SystemDisk_Size = 20\<rparr>;
              t2 = t1 @ [Call_CreateInstance client createInstanceRequest] in
          case CreateInstanceWithOptions E client createInstanceRequest of
            Inl err \<Rightarrow> ((None, Some (to_SDKError err)), t2)
          | Inr result \<Rightarrow>
             (case read_create_response result of
                Inl p \<Rightarrow> ((None, Some (to_SDKError (Other p))), t2)
              | Inr out \<Rightarrow> ((Some out, None), t2))))"

definition RunInstances ::
  "ecs \<Rightarrow> string \<Rightarrow> string \<Rightarrow> string \<Rightarrow> string \<Rightarrow> string \<Rightarrow> string \<Rightarrow> string \<Rightarrow> string \<Rightarrow> int32
     \<Rightarrow> (CreateInstanceResponse option \<times> SDKError option) \<times> ecs_call list" where
  "RunInstances E regionID keyID keySecret instanceType imageID password securityGroupID
                periodUnit period =
     (let t1 = [Call_NewClient \<lparr>AccessKeyId = keyID, AccessKeySecret = keySecret,
                                RegionId = regionID\<rparr>] in
      case newClient E regionID keyID keySecret of
        Inl err \<Rightarrow> ((None, Some err), t1)
      | Inr client \<Rightarrow>
         (let createInstanceRequest =
                \<lparr>ri_RegionId = regionID,
                 ri_InstanceType = instanceType,
                 ri_DryRun = True,
                 ri_ImageId = imageID,
                 ri_SecurityGroupId = securityGroupID,
                 ri_InstanceChargeType = ''PrePaid'',
                 ri_PeriodUnit = periodUnit,
                 ri_Period = period,
                 ri_Password = password,
                 ri_InternetMaxBandwidthOut = 1,
                 ri_InternetMaxBandwidthIn = 1\<rparr>;
              t2 = t1 @ [Call_RunInstances client createInstanceRequest] in
          case RunInstancesWithOptions E client createInstanceRequest of
            Inl err \<Rightarrow> ((None, Some (to_SDKError err)), t2)
          | Inr result \<Rightarrow>
             (case read_run_response result of
                Inl p \<Rightarrow> ((None, Some (to_SDKError (Other p))), t2)
              | Inr out \<Rightarrow> ((Some out, None), t2))))"

section \<open>Concrete configurations and worlds\<close>

text \<open>
  A configuration, a world in which every call succeeds, and variations of it in which
  some calls fail; the theorems below are exercised on them.
\<close>

definition cfg0 :: BasisCfg where
  "cfg0 = \<lparr>LotusWsAddr = ''ws://node'', LotusHTTPSAddr = ''https://node'',
           TitanContractorAddr = ''0xT'', PrivateKeyStr = ''k''\<rparr>"

definition world_ok :: world where
  "world_ok =
     \<lparr>Dial = (\<lambda>_. Inr 1),
      NewAbi = (\<lambda>_ _. Inr 2),
      WatchTransfer = (\<lambda>_ _. None),
      NetworkID = (\<lambda>_. Inr 314),
      AbiMint = (\<lambda>_ _ _ _. Inr \<lparr>tx_Hash = 7\<rparr>),
      AbiTransfer = (\<lambda>_ _ _ _. Inr \<lparr>tx_Hash = 8\<rparr>),
      BalanceOf = (\<lambda>_ _. (Some 5, None)),
      ChainHead = (\<lambda>_. Inr \<lparr>ts_Height = 10\<rparr>),
      EthGetMessageCidByTransactionHash = (\<lambda>_ _. Inr ''cid''),
      ChainGetMessage = (\<lambda>_ _. Inr \<lparr>msg_From = ''f1'', msg_To = ''f2'', msg_Value = 5\<rparr>),
      StateSearchMsg = (\<lambda>_ _. Inr \<lparr>lk_Height = 3, lk_Receipt = \<lparr>ExitCode = 0, GasUsed = 1\<rparr>\<rparr>),
      HexToAddress = (\<lambda>_. 4),
      HexToECDSA = (\<lambda>_. Inr 1),
      Public_ok = (\<lambda>_. True),
      PubkeyToAddress = (\<lambda>_. 9),
      Address_Hex = (\<lambda>_. ''0xaddr''),
      Hash_Hex = (\<lambda>_. ''0xhash''),
      SetString_failed = (\<lambda>_. 0)\<rparr>"

text \<open>The first subscription succeeds, every later one fails.\<close>

definition world_resub_fails :: world where
  "world_resub_fails =
     world_ok\<lparr>WatchTransfer := (\<lambda>_ n. if n = 0 then None else Some ''refused'')\<rparr>"

text \<open>The node cannot be reached.\<close>

definition world_down :: world where
  "world_down =
     world_ok\<lparr>Dial := (\<lambda>_. Inl ''refused''), ChainHead := (\<lambda>_. Inl ''refused'')\<rparr>"

text \<open>The message was executed on chain and failed there.\<close>

definition world_exit1 :: world where
  "world_exit1 =
     world_ok\<lparr>StateSearchMsg :=
       (\<lambda>_ _. Inr \<lparr>lk_Height = 3, lk_Receipt = \<lparr>ExitCode = 1, GasUsed = 1\<rparr>\<rparr>)\<rparr>"

definition log0 :: Log where
  "log0 = \<lparr>TxHash = 255, BlockNumber = 12, Removed = False\<rparr>"

definition tr_removed :: AbiTransfer where
  "tr_removed = \<lparr>tr_From = 1, tr_To = 2, tr_Value = 100, tr_Raw = log0\<lparr>Removed := True\<rparr>\<rparr>"

definition tr_small :: AbiTransfer where
  "tr_small = \<lparr>tr_From = 1, tr_To = 2, tr_Value = 100, tr_Raw = log0\<rparr>"

definition tr_two64 :: AbiTransfer where
  "tr_two64 = \<lparr>tr_From = 1, tr_To = 2, tr_Value = 18446744073709551616, tr_Raw = log0\<rparr>"

definition tr_two63 :: AbiTransfer where
  "tr_two63 = \<lparr>tr_From = 1, tr_To = 2, tr_Value = 9223372036854775808, tr_Raw = log0\<rparr>"

definition ecs_ok :: ecs where
  "ecs_ok =
     \<lparr>NewClient = (\<lambda>_. Inr 1),
      CreateInstanceWithOptions =
        (\<lambda>_ _. Inr (Some \<lparr>cb_InstanceId = Some ''i-1'', cb_OrderId = Some ''o-1'',
                          cb_RequestId = Some ''r-1'', cb_TradePrice = Some 0\<rparr>)),
      RunInstancesWithOptions =
        (\<lambda>_ _. Inr (Some \<lparr>rb_InstanceIdSets = Some [Some ''i-1''], rb_OrderId = Some ''o-1'',
                          rb_RequestId = Some ''r-1'', rb_TradePrice = Some 0\<rparr>))\<rparr>"

text \<open>As \<open>world_ok\<close>, with hashes rendered apart.\<close>

definition world_hex :: world where
  "world_hex =
     world_ok\<lparr>Hash_Hex := (\<lambda>h. if h = 7 then ''0x07'' else if h = 8 then ''0x08'' else ''0x00'')\<rparr>"

text \<open>The provider refuses the credentials.\<close>

definition ecs_down :: ecs where
  "ecs_down = ecs_ok\<lparr>NewClient := (\<lambda>_. Inl (Other ''InvalidAccessKeyId''))\<rparr>"

text \<open>The number of non-nil values received from the error channel.\<close>

fun stream_errors :: "select_event list \<Rightarrow> nat" where
  "stream_errors [] = 0"
| "stream_errors (SubErr (Some e) # es) = Suc (stream_errors es)"
| "stream_errors (_ # es) = stream_errors es"

text \<open>The publications among the calls of a trace.\<close>

fun is_Pub :: "call \<Rightarrow> bool" where
  "is_Pub (Pub p t) = True"
| "is_Pub _ = False"

section \<open>Removed transfers\<close>

text \<open>
  C1 (as stated, refuted): a transfer received with \<open>Removed\<close> set would be answered by a
  retraction published on the transfer-watch topic. On the concrete removed transfer the
  watcher dials, binds, subscribes and publishes nothing at all.
\<close>

theorem removed_transfer_no_retraction:
  "Removed (tr_Raw tr_removed) \<and>
   watchTransactions world_ok cfg0 [SinkTr tr_removed] =
     (Running, [Call_Dial ''ws://node'', Call_NewAbi 4 1, Call_WatchTransfer 2 0])"
  by (simp add: watchTransactions_def world_ok_def cfg0_def tr_removed_def log0_def)

text \<open>
  C1 (amended): a transfer received with \<open>Removed\<close> set is dropped. Wherever it stands in
  the sequence of received values, the loop behaves, in result and in calls made, as if
  it had never been received: nothing is published for it.
\<close>

theorem removed_transfer_dropped:
  "Removed (tr_Raw tr) \<Longrightarrow>
     watch_loop w a n (es1 @ SinkTr tr # es2) = watch_loop w a n (es1 @ es2)"
  by (induction w a n es1 rule: watch_loop.induct) (simp_all split: option.splits)

theorem removed_transfer_dropped_witness:
  "Removed (tr_Raw tr_removed) \<and>
   watch_loop world_ok 2 1 ([SinkTr tr_small] @ SinkTr tr_removed # [SinkTr tr_small]) =
   watch_loop world_ok 2 1 ([SinkTr tr_small] @ [SinkTr tr_small])"
proof -
  have h: "Removed (tr_Raw tr_removed)"
    by (simp add: tr_removed_def log0_def)
  show ?thesis
    using h removed_transfer_dropped [OF h, of world_ok 2 1 "[SinkTr tr_small]" "[SinkTr tr_small]"]
    by simp
qed

section \<open>Life of the watcher loop\<close>

lemma watch_loop_running_iff:
  "fst (watch_loop w a n es) = Running \<longleftrightarrow>
     (\<forall>i < stream_errors es. WatchTransfer w a (n + i) = None)"
  by (induction w a n es rule: watch_loop.induct)
     (auto simp: All_less_Suc2 split: option.splits prod.splits)

text \<open>
  A loop that has returned has returned the error of the first resubscription that
  failed, under the prefix the source gives it.
\<close>

lemma watch_loop_returned:
  "fst (watch_loop w a n es) = Returned m \<Longrightarrow>
     \<exists>i e. i < stream_errors es \<and> (\<forall>j < i. WatchTransfer w a (n + j) = None) \<and>
           WatchTransfer w a (n + i) = Some e \<and> m = ''Transfer err:'' @ e"
proof (induction w a n es rule: watch_loop.induct)
  case (1 w myAbi n)
  then show ?case by simp
next
  case (2 w myAbi n es)
  then show ?case by simp
next
  case (3 w myAbi n err es)
  show ?case
  proof (cases "WatchTransfer w myAbi n")
    case None
    with 3 have "fst (watch_loop w myAbi (Suc n) es) = Returned m"
      by (simp split: prod.splits)
    with 3 None obtain i e where ie: "i < stream_errors es"
      "\<forall>j < i. WatchTransfer w myAbi (Suc n + j) = None"
      "WatchTransfer w myAbi (Suc n + i) = Some e" "m = ''Transfer err:'' @ e"
      by blast
    have "\<forall>j < Suc i. WatchTransfer w myAbi (n + j) = None"
      using None ie(2) by (simp add: All_less_Suc2)
    then show ?thesis
      using ie by (intro exI [of _ "Suc i"] exI [of _ e]) simp
  next
    case (Some e)
    with 3 show ?thesis
      by (intro exI [of _ 0] exI [of _ e]) simp
  qed
next
  case (4 w myAbi n tr es)
  then show ?case by (simp split: if_splits prod.splits)
qed

text \<open>
  The resubscription calls the loop makes: attempt \<open>m\<close> is made exactly when enough stream
  errors were received and every earlier attempt succeeded.
\<close>

lemma watch_loop_calls:
  "Call_WatchTransfer a' m \<in> set (snd (watch_loop w a n es)) \<longleftrightarrow>
     a' = a \<and> n \<le> m \<and> m < n + stream_errors es \<and>
     (\<forall>j. n \<le> j \<and> j < m \<longrightarrow> WatchTransfer w a j = None)"
proof (induction w a n es rule: watch_loop.induct)
  case (1 w myAbi n)
  then show ?case by simp
next
  case (2 w myAbi n es)
  then show ?case by simp
next
  case (3 w myAbi n err es)
  show ?case
  proof (cases "WatchTransfer w myAbi n")
    case None
    have *: "(\<forall>j. n \<le> j \<and> j < m \<longrightarrow> WatchTransfer w myAbi j = None) \<longleftrightarrow>
             (\<forall>j. Suc n \<le> j \<and> j < m \<longrightarrow> WatchTransfer w myAbi j = None)"
      using None by (metis Suc_leI le_neq_implies_less Suc_leD)
    show ?thesis
      using 3 None * by (auto simp: split: prod.splits)
  next
    case (Some e)
    then show ?thesis
      by (auto simp: not_less)
  qed
next
  case (4 w myAbi n tr es)
  then show ?case
    by (cases "Removed (tr_Raw tr)") (auto split: prod.splits)
qed

text \<open>
  C2 (as stated, refuted): the loop would survive every sequence of stream errors, failed
  resubscriptions included. With a node that refuses to resubscribe, one stream error
  makes \<open>watchTransactions\<close> return.
\<close>

theorem watcher_returns_on_failed_resubscription:
  "watchTransactions world_resub_fails cfg0 [SubErr (Some ''EOF'')] =
     (Returned ''Transfer err:refused'',
      [Call_Dial ''ws://node'', Call_NewAbi 4 1, Call_WatchTransfer 2 0, Call_WatchTransfer 2 1])"
  by (simp add: watchTransactions_def world_resub_fails_def world_ok_def cfg0_def)

text \<open>
  C2 (amended): once the watcher has subscribed, it is still running after a sequence of
  received values exactly when every resubscription it attempted, one per non-nil stream
  error, succeeded. Transfers and nil values on the error channel never stop it. Otherwise
  it has returned the error of the first failed resubscription, as
  \<^verbatim>\<open>Transfer err:\<close> followed by that error's message. Subscription attempt \<open>m\<close> is made
  exactly when at least \<open>m\<close> stream errors were received and all earlier attempts
  succeeded: a failed resubscription is not retried.
\<close>

theorem watcher_running_iff_resubscriptions_succeed:
  assumes "Dial w (LotusWsAddr cfg) = Inr c"
    and "NewAbi w (HexToAddress w (TitanContractorAddr cfg)) c = Inr a"
    and "WatchTransfer w a 0 = None"
  shows "(fst (watchTransactions w cfg es) = Running \<longleftrightarrow>
            (\<forall>i < stream_errors es. WatchTransfer w a (Suc i) = None)) \<and>
         (fst (watchTransactions w cfg es) = Running \<or>
            (\<exists>i e. i < stream_errors es \<and> (\<forall>j < i. WatchTransfer w a (Suc j) = None) \<and>
                   WatchTransfer w a (Suc i) = Some e \<and>
                   fst (watchTransactions w cfg es) = Returned (''Transfer err:'' @ e))) \<and>
         (Call_WatchTransfer a m \<in> set (snd (watchTransactions w cfg es)) \<longleftrightarrow>
            m \<le> stream_errors es \<and> (\<forall>j < m. WatchTransfer w a j = None))"
proof -
  have run: "watchTransactions w cfg es =
      (fst (watch_loop w a 1 es),
       [Call_Dial (LotusWsAddr cfg),
        Call_NewAbi (HexToAddress w (TitanContractorAddr cfg)) c,
        Call_WatchTransfer a 0] @ snd (watch_loop w a 1 es))"
    using assms by (simp add: watchTransactions_def split: prod.splits)
  have A: "fst (watchTransactions w cfg es) = Running \<longleftrightarrow>
           (\<forall>i < stream_errors es. WatchTransfer w a (Suc i) = None)"
    by (simp add: run watch_loop_running_iff)
  have B: "fst (watchTransactions w cfg es) = Running \<or>
           (\<exists>i e. i < stream_errors es \<and> (\<forall>j < i. WatchTransfer w a (Suc j) = None) \<and>
                  WatchTransfer w a (Suc i) = Some e \<and>
                  fst (watchTransactions w cfg es) = Returned (''Transfer err:'' @ e))"
  proof (cases "fst (watch_loop w a 1 es)")
    case (Returned msg)
    from watch_loop_returned [OF this] show ?thesis
      using Returned by (auto simp: run)
  next
    case Running
    then show ?thesis by (simp add: run)
  qed
  have C: "Call_WatchTransfer a m \<in> set (snd (watchTransactions w cfg es)) \<longleftrightarrow>
            m \<le> stream_errors es \<and> (\<forall>j < m. WatchTransfer w a j = None)"
  proof (cases m)
    case 0
    then show ?thesis by (simp add: run)
  next
    case (Suc k)
    have "(\<forall>j. 1 \<le> j \<and> j < m \<longrightarrow> WatchTransfer w a j = None) \<longleftrightarrow>
          (\<forall>j < m. WatchTransfer w a j = None)"
      using assms(3) by (metis One_nat_def Suc_leI not_gr_zero)
    then show ?thesis
      using Suc by (auto simp: run watch_loop_calls)
  qed
  show ?thesis
    using A B C by blast
qed

theorem watcher_running_iff_resubscriptions_succeed_witness:
  "Dial world_ok (LotusWsAddr cfg0) = Inr 1 \<and>
   NewAbi world_ok (HexToAddress world_ok (TitanContractorAddr cfg0)) 1 = Inr 2 \<and>
   WatchTransfer world_ok 2 0 = None \<and>
   fst (watchTransactions world_ok cfg0
          [SubErr (Some ''EOF''), SubErr None, SubErr (Some ''EOF''), SinkTr tr_small,
           SubErr (Some ''EOF'')]) = Running \<and>
   Call_WatchTransfer 2 3 \<in>
     set (snd (watchTransactions world_ok cfg0
          [SubErr (Some ''EOF''), SubErr None, SubErr (Some ''EOF''), SinkTr tr_small,
           SubErr (Some ''EOF'')])) \<and>
   Dial world_resub_fails (LotusWsAddr cfg0) = Inr 1 \<and>
   NewAbi world_resub_fails (HexToAddress world_resub_fails (TitanContractorAddr cfg0)) 1 =
     Inr 2 \<and>
   WatchTransfer world_resub_fails 2 0 = None \<and>
   fst (watchTransactions world_resub_fails cfg0
          [SubErr (Some ''EOF''), SinkTr tr_small, SubErr (Some ''EOF'')]) =
     Returned ''Transfer err:refused'' \<and>
   Call_WatchTransfer 2 1 \<in>
     set (snd (watchTransactions world_resub_fails cfg0
          [SubErr (Some ''EOF''), SinkTr tr_small, SubErr (Some ''EOF'')])) \<and>
   Call_WatchTransfer 2 2 \<notin>
     set (snd (watchTransactions world_resub_fails cfg0
          [SubErr (Some ''EOF''), SinkTr tr_small, SubErr (Some ''EOF'')]))"
proof -
  have h1: "Dial world_ok (LotusWsAddr cfg0) = Inr 1"
    by (simp add: world_ok_def)
  have h2: "NewAbi world_ok (HexToAddress world_ok (TitanContractorAddr cfg0)) 1 = Inr 2"
    by (simp add: world_ok_def)
  have h3: "WatchTransfer world_ok 2 0 = None"
    by (simp add: world_ok_def)
  have h4: "\<forall>i. WatchTransfer world_ok 2 i = None"
    by (simp add: world_ok_def)
  have g1: "Dial world_resub_fails (LotusWsAddr cfg0) = Inr 1"
    by (simp add: world_resub_fails_def world_ok_def)
  have g2: "NewAbi world_resub_fails (HexToAddress world_resub_fails (TitanContractorAddr cfg0)) 1
              = Inr 2"
    by (simp add: world_resub_fails_def world_ok_def)
  have g3: "WatchTransfer world_resub_fails 2 0 = None"
    by (simp add: world_resub_fails_def)
  have g4: "WatchTransfer world_resub_fails 2 (Suc i) = Some ''refused''" for i
    by (simp add: world_resub_fails_def)
  have ok: "fst (watchTransactions world_ok cfg0
          [SubErr (Some ''EOF''), SubErr None, SubErr (Some ''EOF''), SinkTr tr_small,
           SubErr (Some ''EOF'')]) = Running \<and>
     Call_WatchTransfer 2 3 \<in>
       set (snd (watchTransactions world_ok cfg0
          [SubErr (Some ''EOF''), SubErr None, SubErr (Some ''EOF''), SinkTr tr_small,
           SubErr (Some ''EOF'')]))"
    using h4
      watcher_running_iff_resubscriptions_succeed [OF h1 h2 h3,
        of "[SubErr (Some ''EOF''), SubErr None, SubErr (Some ''EOF''), SinkTr tr_small,
             SubErr (Some ''EOF'')]" 3]
    by simp
  let ?es = "[SubErr (Some ''EOF''), SinkTr tr_small, SubErr (Some ''EOF'')]"
  note T1 = watcher_running_iff_resubscriptions_succeed [OF g1 g2 g3, of ?es 1]
  note T2 = watcher_running_iff_resubscriptions_succeed [OF g1 g2 g3, of ?es 2]
  have n1: "\<not> (\<forall>i < stream_errors ?es. WatchTransfer world_resub_fails 2 (Suc i) = None)"
    using g4 [of 0] by (simp add: All_less_Suc)
  have n2: "\<not> (\<forall>j < 2. WatchTransfer world_resub_fails 2 j = None)"
    using g4 [of 0] by (simp add: numeral_2_eq_2 All_less_Suc)
  have b1: "fst (watchTransactions world_resub_fails cfg0 ?es) = Returned ''Transfer err:refused''"
  proof -
    from T1 n1 obtain i e where "WatchTransfer world_resub_fails 2 (Suc i) = Some e"
      and r: "fst (watchTransactions world_resub_fails cfg0 ?es) = Returned (''Transfer err:'' @ e)"
      by blast
    then have "e = ''refused''"
      using g4 [of i] by simp
    with r show ?thesis by simp
  qed
  have b2: "Call_WatchTransfer 2 1 \<in> set (snd (watchTransactions world_resub_fails cfg0 ?es))"
    using T1 g3 by simp
  have b3: "Call_WatchTransfer 2 2 \<notin> set (snd (watchTransactions world_resub_fails cfg0 ?es))"
    using T2 n2 by blast
  have bad: "fst (watchTransactions world_resub_fails cfg0
          [SubErr (Some ''EOF''), SinkTr tr_small, SubErr (Some ''EOF'')]) =
       Returned ''Transfer err:refused'' \<and>
     Call_WatchTransfer 2 1 \<in>
       set (snd (watchTransactions world_resub_fails cfg0
          [SubErr (Some ''EOF''), SinkTr tr_small, SubErr (Some ''EOF'')])) \<and>
     Call_WatchTransfer 2 2 \<notin>
       set (snd (watchTransactions world_resub_fails cfg0
          [SubErr (Some ''EOF''), SinkTr tr_small, SubErr (Some ''EOF'')]))"
    using b1 b2 b3 by simp
  show ?thesis
    using h1 h2 h3 g1 g2 g3 ok bad by blast
qed

section \<open>Amounts of outbound transactions\<close>

lemma parse_amount_zero: "parse_amount w ''0'' = 0"
  by (simp add: parse_amount_def SetString_def digitVal_def)

text \<open>
  C3 (as stated, refuted): a call of \<open>Mint\<close> or \<open>Transfer\<close> with amount \<open>''0''\<close> would
  fail before a transaction is built. In a world where every call succeeds, both submit
  a contract call with amount 0 and return its hash without error.
\<close>

theorem zero_amount_is_submitted:
  "Mint world_ok cfg0 ''0xabc'' ''0'' =
     ((''0xhash'', None),
      [Call_Dial ''https://node'', Call_NewAbi 4 1, Call_NetworkID 1,
       Call_Mint 2 \<lparr>Signer_chainID = 314, Signer_key = 1, opt_From = 9\<rparr> 4 0]) \<and>
   Transfer world_ok cfg0 ''0xabc'' ''0'' =
     ((''0xhash'', None),
      [Call_Dial ''https://node'', Call_NewAbi 4 1, Call_NetworkID 1,
       Call_Transfer 2 \<lparr>Signer_chainID = 314, Signer_key = 1, opt_From = 9\<rparr> 4 0])"
  by (simp add: Mint_def Transfer_def world_ok_def cfg0_def parse_amount_zero)

text \<open>
  C3 (amended): the amount \<open>''0''\<close> is not rejected. Once dialing, binding, key parsing
  and the network id lookup have succeeded, \<open>Mint\<close> and \<open>Transfer\<close> submit a contract call
  with amount 0, and what they return is the outcome of that submission.
\<close>

theorem zero_amount_not_rejected:
  assumes "Dial w (LotusHTTPSAddr cfg) = Inr c"
    and "NewAbi w (HexToAddress w (TitanContractorAddr cfg)) c = Inr a"
    and "HexToECDSA w (PrivateKeyStr cfg) = Inr k"
    and "Public_ok w k"
    and "NetworkID w c = Inr chain"
  shows "Mint w cfg toAddr ''0'' =
           ((case AbiMint w a \<lparr>Signer_chainID = chain, Signer_key = k,
                                opt_From = PubkeyToAddress w k\<rparr> (HexToAddress w toAddr) 0 of
               Inl e \<Rightarrow> ('''', Some (''Mint err:'' @ e))
             | Inr tr \<Rightarrow> (Hash_Hex w (tx_Hash tr), None)),
            [Call_Dial (LotusHTTPSAddr cfg),
             Call_NewAbi (HexToAddress w (TitanContractorAddr cfg)) c,
             Call_NetworkID c,
             Call_Mint a \<lparr>Signer_chainID = chain, Signer_key = k,
                           opt_From = PubkeyToAddress w k\<rparr> (HexToAddress w toAddr) 0]) \<and>
         Transfer w cfg toAddr ''0'' =
           ((case AbiTransfer w a \<lparr>Signer_chainID = chain, Signer_key = k,
                                    opt_From = PubkeyToAddress w k\<rparr> (HexToAddress w toAddr) 0 of
               Inl e \<Rightarrow> ('''', Some (''Transfer err:'' @ e))
             | Inr tr \<Rightarrow> (Hash_Hex w (tx_Hash tr), None)),
            [Call_Dial (LotusHTTPSAddr cfg),
             Call_NewAbi (HexToAddress w (TitanContractorAddr cfg)) c,
             Call_NetworkID c,
             Call_Transfer a \<lparr>Signer_chainID = chain, Signer_key = k,
                               opt_From = PubkeyToAddress w k\<rparr> (HexToAddress w toAddr) 0])"
  using assms by (simp add: Mint_def Transfer_def parse_amount_zero split: sum.splits)

theorem zero_amount_not_rejected_witness:
  "Dial world_ok (LotusHTTPSAddr cfg0) = Inr 1 \<and>
   NewAbi world_ok (HexToAddress world_ok (TitanContractorAddr cfg0)) 1 = Inr 2 \<and>
   HexToECDSA world_ok (PrivateKeyStr cfg0) = Inr 1 \<and>
   Public_ok world_ok 1 \<and>
   NetworkID world_ok 1 = Inr 314 \<and>
   fst (Mint world_ok cfg0 ''0xdef'' ''0'') = (''0xhash'', None) \<and>
   fst (Transfer world_ok cfg0 ''0xdef'' ''0'') = (''0xhash'', None)"
proof -
  have h1: "Dial world_ok (LotusHTTPSAddr cfg0) = Inr 1"
    by (simp add: world_ok_def)
  have h2: "NewAbi world_ok (HexToAddress world_ok (TitanContractorAddr cfg0)) 1 = Inr 2"
    by (simp add: world_ok_def)
  have h3: "HexToECDSA world_ok (PrivateKeyStr cfg0) = Inr 1"
    by (simp add: world_ok_def)
  have h4: "Public_ok world_ok 1"
    by (simp add: world_ok_def)
  have h5: "NetworkID world_ok 1 = Inr 314"
    by (simp add: world_ok_def)
  have out: "AbiMint world_ok a opt t 0 = Inr \<lparr>tx_Hash = 7\<rparr>"
    "AbiTransfer world_ok a opt t 0 = Inr \<lparr>tx_Hash = 8\<rparr>"
    "Hash_Hex world_ok x = ''0xhash''" for a opt t x
    by (simp_all add: world_ok_def)
  show ?thesis
    using h1 h2 h3 h4 h5 zero_amount_not_rejected [OF h1 h2 h3 h4 h5, of "''0xdef''"]
    by (simp add: out)
qed

section \<open>Values of published transfers\<close>

text \<open>An amount string is parsed without loss, also beyond 64 bits.\<close>

lemma parse_amount_beyond_64_bits: "parse_amount w ''18446744073709551616'' = 2 ^ 64"
  by (simp add: parse_amount_def SetString_def digitVal_def)

lemma Int64_word_of_int: "Int64 x = word_of_int x"
proof -
  have "(word_of_int (y mod 2 ^ 64) :: 64 word) = word_of_int y" for y
    by (simp add: word_of_int_eq_iff take_bit_eq_mod)
  then show ?thesis
    by (simp add: Int64_def Let_def)
qed

lemma Int64_exact: "- (2 ^ 63) \<le> x \<Longrightarrow> x < 2 ^ 63 \<Longrightarrow> sint (Int64 x) = x"
  by (simp add: Int64_word_of_int sint_sbintrunc' signed_take_bit_int_eq_self)

text \<open>
  What the watcher publishes for a transfer that is not removed: one event on the
  transfer-watch topic, with the hex renderings of hash and addresses and the
  \<^verbatim>\<open>Int64()\<close> of the value, which is the value itself as long as it fits 64 bits.
\<close>

lemma watch_event_fields:
  "\<not> Removed (tr_Raw tr) \<Longrightarrow>
     snd (watch_loop w a n [SinkTr tr]) =
       [Pub (WatchP \<lparr>fw_ID = Hash_Hex w (TxHash (tr_Raw tr)),
                     fw_From = Address_Hex w (tr_From tr),
                     fw_To = Address_Hex w (tr_To tr),
                     fw_Value = Int64 (tr_Value tr)\<rparr>) EventTransferWatch]"
  by simp

text \<open>
  C4 (the code departs from the claim): amounts would stay decimal strings end to end and
  never pass through a bounded machine integer. The watcher converts the value of a
  transfer with \<^verbatim>\<open>Int64()\<close>: a transfer of \<open>2 ^ 64\<close> units is published with value 0.
\<close>

theorem watch_value_truncated_to_int64:
  "tr_Value tr_two64 = 2 ^ 64 \<and>
   watch_loop world_ok 2 1 [SinkTr tr_two64] =
     (Running, [Pub (WatchP \<lparr>fw_ID = ''0xhash'', fw_From = ''0xaddr'', fw_To = ''0xaddr'',
                              fw_Value = 0\<rparr>) EventTransferWatch])"
  by (simp add: tr_two64_def log0_def world_ok_def Int64_def)

text \<open>
  C7 (the code departs from the claim): the event published for a transfer that is not
  removed would carry the raw transfer's value. For a transfer of \<open>2 ^ 63\<close> units the
  published value reads \<open>- (2 ^ 63)\<close>.
\<close>

theorem watch_value_differs_from_raw:
  "\<not> Removed (tr_Raw tr_two63) \<and> tr_Value tr_two63 = 2 ^ 63 \<and>
   snd (watchTransactions world_ok cfg0 [SinkTr tr_two63]) =
     [Call_Dial ''ws://node'', Call_NewAbi 4 1, Call_WatchTransfer 2 0,
      Pub (WatchP \<lparr>fw_ID = ''0xhash'', fw_From = ''0xaddr'', fw_To = ''0xaddr'',
                    fw_Value = Int64 (2 ^ 63)\<rparr>) EventTransferWatch] \<and>
   sint (Int64 (2 ^ 63)) = - (2 ^ 63)"
  by (simp add: watchTransactions_def cfg0_def tr_two63_def log0_def world_ok_def Int64_def)

section \<open>Failures of ledger calls\<close>

text \<open>
  A manager function reports no error exactly when every call it depends on succeeded.
\<close>

lemma Mint_ok_iff:
  "snd (fst (Mint w cfg toAddr v)) = None \<longleftrightarrow>
     (\<exists>c a k chain tr.
        Dial w (LotusHTTPSAddr cfg) = Inr c \<and>
        NewAbi w (HexToAddress w (TitanContractorAddr cfg)) c = Inr a \<and>
        HexToECDSA w (PrivateKeyStr cfg) = Inr k \<and> Public_ok w k \<and>
        NetworkID w c = Inr chain \<and>
        AbiMint w a \<lparr>Signer_chainID = chain, Signer_key = k, opt_From = PubkeyToAddress w k\<rparr>
          (HexToAddress w toAddr) (parse_amount w v) = Inr tr)"
  by (auto simp: Mint_def Let_def split: sum.splits)

lemma Transfer_ok_iff:
  "snd (fst (Transfer w cfg toAddr v)) = None \<longleftrightarrow>
     (\<exists>c a k chain tr.
        Dial w (LotusHTTPSAddr cfg) = Inr c \<and>
        NewAbi w (HexToAddress w (TitanContractorAddr cfg)) c = Inr a \<and>
        HexToECDSA w (PrivateKeyStr cfg) = Inr k \<and> Public_ok w k \<and>
        NetworkID w c = Inr chain \<and>
        AbiTransfer w a \<lparr>Signer_chainID = chain, Signer_key = k, opt_From = PubkeyToAddress w k\<rparr>
          (HexToAddress w toAddr) (parse_amount w v) = Inr tr)"
  by (auto simp: Transfer_def Let_def split: sum.splits)

lemma GetBalance_ok_iff:
  "snd (fst (GetBalance w cfg addr)) = None \<longleftrightarrow>
     (\<exists>c a. Dial w (LotusHTTPSAddr cfg) = Inr c \<and>
        NewAbi w (HexToAddress w (TitanContractorAddr cfg)) c = Inr a \<and>
        snd (BalanceOf w a (HexToAddress w addr)) = None)"
  by (auto simp: GetBalance_def Let_def split: sum.splits)

lemma CheckMessage_ok_iff:
  "fst (CheckMessage w cfg tx) = None \<longleftrightarrow>
     (\<exists>c m i. EthGetMessageCidByTransactionHash w tx (LotusHTTPSAddr cfg) = Inr c \<and>
        ChainGetMessage w c (LotusHTTPSAddr cfg) = Inr m \<and>
        StateSearchMsg w c (LotusHTTPSAddr cfg) = Inr i)"
  by (auto simp: CheckMessage_def Let_def split: sum.splits)

text \<open>No call is made twice: nothing is retried.\<close>

lemma Mint_distinct: "distinct (snd (Mint w cfg toAddr v))"
  by (simp add: Mint_def Let_def split: sum.splits)

lemma Transfer_distinct: "distinct (snd (Transfer w cfg toAddr v))"
  by (simp add: Transfer_def Let_def split: sum.splits)

lemma GetBalance_distinct: "distinct (snd (GetBalance w cfg addr))"
  by (simp add: GetBalance_def Let_def split: sum.splits)

lemma CheckMessage_distinct: "distinct (snd (CheckMessage w cfg tx))"
  by (simp add: CheckMessage_def Let_def split: sum.splits)

text \<open>
  C5 (as stated, refuted): every ledger operation of the manager would hand a failure to
  its caller as an error, never as a default value. \<open>GetHeight\<close> has no error result:
  with an unreachable node it returns height 0.
\<close>

theorem height_lookup_failure_returns_zero:
  "ChainHead world_down (LotusHTTPSAddr cfg0) = Inl ''refused'' \<and>
   GetHeight world_down cfg0 = (0, [Call_ChainHead ''https://node''])"
  by (simp add: GetHeight_def world_down_def world_ok_def cfg0_def)

text \<open>
  C5 (amended): \<open>GetBalance\<close>, \<open>CheckMessage\<close>, \<open>Mint\<close> and \<open>Transfer\<close> return without
  error exactly when every call they depend on succeeded, so that any failure reaches the
  caller as an error, and they make no call twice. \<open>GetHeight\<close> makes one chain-head
  lookup and, when it fails, returns 0.
\<close>

theorem ledger_failures_propagate_except_height:
  "(snd (fst (GetBalance w cfg addr)) = None \<longleftrightarrow>
      (\<exists>c a. Dial w (LotusHTTPSAddr cfg) = Inr c \<and>
         NewAbi w (HexToAddress w (TitanContractorAddr cfg)) c = Inr a \<and>
         snd (BalanceOf w a (HexToAddress w addr)) = None)) \<and>
   (fst (CheckMessage w cfg tx) = None \<longleftrightarrow>
      (\<exists>c m i. EthGetMessageCidByTransactionHash w tx (LotusHTTPSAddr cfg) = Inr c \<and>
         ChainGetMessage w c (LotusHTTPSAddr cfg) = Inr m \<and>
         StateSearchMsg w c (LotusHTTPSAddr cfg) = Inr i)) \<and>
   (snd (fst (Mint w cfg toAddr v)) = None \<longleftrightarrow>
      (\<exists>c a k chain tr.
         Dial w (LotusHTTPSAddr cfg) = Inr c \<and>
         NewAbi w (HexToAddress w (TitanContractorAddr cfg)) c = Inr a \<and>
         HexToECDSA w (PrivateKeyStr cfg) = Inr k \<and> Public_ok w k \<and>
         NetworkID w c = Inr chain \<and>
         AbiMint w a \<lparr>Signer_chainID = chain, Signer_key = k, opt_From = PubkeyToAddress w k\<rparr>
           (HexToAddress w toAddr) (parse_amount w v) = Inr tr)) \<and>
   (snd (fst (Transfer w cfg toAddr v)) = None \<longleftrightarrow>
      (\<exists>c a k chain tr.
         Dial w (LotusHTTPSAddr cfg) = Inr c \<and>
         NewAbi w (HexToAddress w (TitanContractorAddr cfg)) c = Inr a \<and>
         HexToECDSA w (PrivateKeyStr cfg) = Inr k \<and> Public_ok w k \<and>
         NetworkID w c = Inr chain \<and>
         AbiTransfer w a \<lparr>Signer_chainID = chain, Signer_key = k, opt_From = PubkeyToAddress w k\<rparr>
           (HexToAddress w toAddr) (parse_amount w v) = Inr tr)) \<and>
   distinct (snd (GetBalance w cfg addr)) \<and>
   distinct (snd (CheckMessage w cfg tx)) \<and>
   distinct (snd (Mint w cfg toAddr v)) \<and>
   distinct (snd (Transfer w cfg toAddr v)) \<and>
   (ChainHead w (LotusHTTPSAddr cfg) = Inl e \<longrightarrow>
      GetHeight w cfg = (0, [Call_ChainHead (LotusHTTPSAddr cfg)]))"
proof -
  have "ChainHead w (LotusHTTPSAddr cfg) = Inl e \<Longrightarrow>
          GetHeight w cfg = (0, [Call_ChainHead (LotusHTTPSAddr cfg)])"
    by (simp add: GetHeight_def)
  then show ?thesis
    using GetBalance_ok_iff [of w cfg addr] CheckMessage_ok_iff [of w cfg tx]
      Mint_ok_iff [of w cfg toAddr v] Transfer_ok_iff [of w cfg toAddr v]
      GetBalance_distinct [of w cfg addr] CheckMessage_distinct [of w cfg tx]
      Mint_distinct [of w cfg toAddr v] Transfer_distinct [of w cfg toAddr v]
    by blast
qed

theorem ledger_failures_propagate_except_height_witness:
  "Dial world_down (LotusHTTPSAddr cfg0) = Inl ''refused'' \<and>
   ChainHead world_down (LotusHTTPSAddr cfg0) = Inl ''refused'' \<and>
   snd (fst (GetBalance world_down cfg0 ''0xabc'')) = Some ''Dial err:refused'' \<and>
   snd (fst (Mint world_down cfg0 ''0xabc'' ''5'')) = Some ''Dial err:refused'' \<and>
   snd (fst (Transfer world_down cfg0 ''0xabc'' ''5'')) = Some ''Dial err:refused'' \<and>
   fst (CheckMessage world_down cfg0 ''0xabc'') = None \<and>
   fst (GetHeight world_down cfg0) = 0"
  using ledger_failures_propagate_except_height
          [of world_down cfg0 "''0xabc''" "''0xabc''" "''0xabc''" "''5''" "''refused''"]
  by (simp add: world_down_def world_ok_def cfg0_def GetBalance_def Mint_def Transfer_def)

section \<open>Answering transfer requests\<close>

lemma Mint_no_Pub: "filter is_Pub (snd (Mint w cfg toAddr v)) = []"
  by (simp add: Mint_def Let_def split: sum.splits)

lemma Mint_failed_hash:
  "snd (fst (Mint w cfg toAddr v)) = Some e \<Longrightarrow> fst (fst (Mint w cfg toAddr v)) = ''''"
  by (auto simp: Mint_def Let_def split: sum.splits if_splits)

lemma subscribe_loop_requests:
  "subscribe_loop cfg (map (\<lambda>(w, tr). (w, ReqP tr)) reqs) =
     (Waiting,
      concat (map (\<lambda>(w, tr). snd (Mint w cfg (req_To tr) (req_Value tr)) @
        [Pub (RepP (case fst (Mint w cfg (req_To tr) (req_Value tr)) of
                      (h, None) \<Rightarrow> \<lparr>rep_ID = req_ID tr, rep_TxHash = h, rep_Msg = ''''\<rparr>
                    | (h, Some e) \<Rightarrow> \<lparr>rep_ID = req_ID tr, rep_TxHash = '''', rep_Msg = e\<rparr>))
             EventTransferRep]) reqs))"
proof (induction reqs)
  case Nil
  then show ?case by simp
next
  case (Cons r reqs)
  obtain w tr where r: "r = (w, tr)"
    by (cases r)
  obtain h err t where m: "Mint w cfg (req_To tr) (req_Value tr) = ((h, err), t)"
    by (metis prod.collapse)
  have "err \<noteq> None \<Longrightarrow> h = ''''"
    using Mint_failed_hash [of w cfg "req_To tr" "req_Value tr"] m by auto
  then show ?case
    using Cons.IH r m by (cases err) simp_all
qed

lemma publications_of_requests:
  "filter is_Pub
     (concat (map (\<lambda>(w, tr). snd (Mint w cfg (req_To tr) (req_Value tr)) @ [Pub (f w tr) t])
                reqs)) =
     map (\<lambda>(w, tr). Pub (f w tr) t) reqs"
  by (induction reqs) (simp_all add: Mint_no_Pub case_prod_beta)

text \<open>
  C6: for transfer requests received in sequence, \<open>subscribeEvents\<close> subscribes and then,
  request by request, makes the calls of \<open>Mint\<close> and publishes one response on the
  response topic before turning to the next request. Its publications are exactly one
  response per request, in order, each with the request's id, with the hash and an empty
  message when \<open>Mint\<close> succeeded, and with an empty hash and the error message when it
  failed.
\<close>

theorem one_response_per_request:
  "subscribeEvents cfg (map (\<lambda>(w, tr). (w, ReqP tr)) reqs) =
     (Waiting, Sub EventTransferReq #
        concat (map (\<lambda>(w, tr). snd (Mint w cfg (req_To tr) (req_Value tr)) @
          [Pub (RepP (case fst (Mint w cfg (req_To tr) (req_Value tr)) of
                        (h, None) \<Rightarrow> \<lparr>rep_ID = req_ID tr, rep_TxHash = h, rep_Msg = ''''\<rparr>
                      | (h, Some e) \<Rightarrow> \<lparr>rep_ID = req_ID tr, rep_TxHash = '''', rep_Msg = e\<rparr>))
               EventTransferRep]) reqs)) \<and>
   filter is_Pub (snd (subscribeEvents cfg (map (\<lambda>(w, tr). (w, ReqP tr)) reqs))) =
     map (\<lambda>(w, tr).
            Pub (RepP (case fst (Mint w cfg (req_To tr) (req_Value tr)) of
                         (h, None) \<Rightarrow> \<lparr>rep_ID = req_ID tr, rep_TxHash = h, rep_Msg = ''''\<rparr>
                       | (h, Some e) \<Rightarrow> \<lparr>rep_ID = req_ID tr, rep_TxHash = '''', rep_Msg = e\<rparr>))
                EventTransferRep) reqs"
  by (simp add: subscribeEvents_def subscribe_loop_requests publications_of_requests)

theorem one_response_per_request_witness:
  "filter is_Pub
     (snd (subscribeEvents cfg0
        [(world_ok, ReqP \<lparr>req_ID = ''r1'', req_To = ''0xabc'', req_Value = ''5''\<rparr>),
         (world_down, ReqP \<lparr>req_ID = ''r2'', req_To = ''0xabc'', req_Value = ''6''\<rparr>)])) =
     [Pub (RepP \<lparr>rep_ID = ''r1'', rep_TxHash = ''0xhash'', rep_Msg = ''''\<rparr>) EventTransferRep,
      Pub (RepP \<lparr>rep_ID = ''r2'', rep_TxHash = '''', rep_Msg = ''Dial err:refused''\<rparr>)
        EventTransferRep]"
  using one_response_per_request
          [of cfg0 "[(world_ok, \<lparr>req_ID = ''r1'', req_To = ''0xabc'', req_Value = ''5''\<rparr>),
                     (world_down, \<lparr>req_ID = ''r2'', req_To = ''0xabc'', req_Value = ''6''\<rparr>)]"]
  by (simp add: Mint_def world_down_def world_ok_def cfg0_def)

section \<open>The hash returned by a submission\<close>

text \<open>
  A successful \<open>Mint\<close> or \<open>Transfer\<close> has dialed, bound the contract, asked the client
  for the network id and submitted one contract call signed for that chain, in this
  order and nothing else; the string returned renders the hash of the transaction that
  call returned.
\<close>

lemma Mint_submitted:
  "fst (Mint w cfg toAddr v) = (h, None) \<Longrightarrow>
     (\<exists>c a k chain tr.
        Dial w (LotusHTTPSAddr cfg) = Inr c \<and>
        NewAbi w (HexToAddress w (TitanContractorAddr cfg)) c = Inr a \<and>
        HexToECDSA w (PrivateKeyStr cfg) = Inr k \<and>
        NetworkID w c = Inr chain \<and>
        AbiMint w a \<lparr>Signer_chainID = chain, Signer_key = k, opt_From = PubkeyToAddress w k\<rparr>
          (HexToAddress w toAddr) (parse_amount w v) = Inr tr \<and>
        h = Hash_Hex w (tx_Hash tr) \<and>
        snd (Mint w cfg toAddr v) =
          [Call_Dial (LotusHTTPSAddr cfg),
           Call_NewAbi (HexToAddress w (TitanContractorAddr cfg)) c,
           Call_NetworkID c,
           Call_Mint a \<lparr>Signer_chainID = chain, Signer_key = k,
                         opt_From = PubkeyToAddress w k\<rparr>
             (HexToAddress w toAddr) (parse_amount w v)])"
  by (auto simp: Mint_def Let_def split: sum.splits if_splits)

lemma Transfer_submitted:
  "fst (Transfer w cfg toAddr v) = (h, None) \<Longrightarrow>
     (\<exists>c a k chain tr.
        Dial w (LotusHTTPSAddr cfg) = Inr c \<and>
        NewAbi w (HexToAddress w (TitanContractorAddr cfg)) c = Inr a \<and>
        HexToECDSA w (PrivateKeyStr cfg) = Inr k \<and>
        NetworkID w c = Inr chain \<and>
        AbiTransfer w a \<lparr>Signer_chainID = chain, Signer_key = k, opt_From = PubkeyToAddress w k\<rparr>
          (HexToAddress w toAddr) (parse_amount w v) = Inr tr \<and>
        h = Hash_Hex w (tx_Hash tr) \<and>
        snd (Transfer w cfg toAddr v) =
          [Call_Dial (LotusHTTPSAddr cfg),
           Call_NewAbi (HexToAddress w (TitanContractorAddr cfg)) c,
           Call_NetworkID c,
           Call_Transfer a \<lparr>Signer_chainID = chain, Signer_key = k,
                             opt_From = PubkeyToAddress w k\<rparr>
             (HexToAddress w toAddr) (parse_amount w v)])"
  by (auto simp: Transfer_def Let_def split: sum.splits if_splits)

text \<open>
  Neither function consults the subscription or the lookups of message and receipt:
  changing how the world answers those changes nothing.
\<close>

lemma parse_amount_indep:
  "parse_amount (w\<lparr>WatchTransfer := wt, EthGetMessageCidByTransactionHash := f,
                   ChainGetMessage := g, StateSearchMsg := s\<rparr>) v = parse_amount w v"
  by (simp add: parse_amount_def split: option.splits)

lemma Mint_indep:
  "Mint (w\<lparr>WatchTransfer := wt, EthGetMessageCidByTransactionHash := f,
           ChainGetMessage := g, StateSearchMsg := s\<rparr>) cfg toAddr v = Mint w cfg toAddr v"
  by (simp add: Mint_def parse_amount_indep Let_def cong: sum.case_cong if_cong)

lemma Transfer_indep:
  "Transfer (w\<lparr>WatchTransfer := wt, EthGetMessageCidByTransactionHash := f,
               ChainGetMessage := g, StateSearchMsg := s\<rparr>) cfg toAddr v =
     Transfer w cfg toAddr v"
  by (simp add: Transfer_def parse_amount_indep Let_def cong: sum.case_cong if_cong)

text \<open>
  C8: when \<open>Mint\<close> or \<open>Transfer\<close> succeeds, it has made exactly these calls: the dial,
  the contract binding, the \<open>NetworkID\<close> lookup on the dialed client, and one contract
  call whose signer carries the chain id that lookup answered; the string returned is
  the hex rendering of the hash of the transaction that this submission returned. The
  result does not depend on what the subscription or the message and receipt lookups
  would answer: no confirmation is awaited.
\<close>

theorem submission_hash_with_dynamic_chain_id:
  "(fst (Mint w cfg toAddr v) = (h, None) \<longrightarrow>
      (\<exists>c a k chain tr.
         Dial w (LotusHTTPSAddr cfg) = Inr c \<and>
         NewAbi w (HexToAddress w (TitanContractorAddr cfg)) c = Inr a \<and>
         HexToECDSA w (PrivateKeyStr cfg) = Inr k \<and>
         NetworkID w c = Inr chain \<and>
         AbiMint w a \<lparr>Signer_chainID = chain, Signer_key = k, opt_From = PubkeyToAddress w k\<rparr>
           (HexToAddress w toAddr) (parse_amount w v) = Inr tr \<and>
         h = Hash_Hex w (tx_Hash tr) \<and>
         snd (Mint w cfg toAddr v) =
           [Call_Dial (LotusHTTPSAddr cfg),
            Call_NewAbi (HexToAddress w (TitanContractorAddr cfg)) c,
            Call_NetworkID c,
            Call_Mint a \<lparr>Signer_chainID = chain, Signer_key = k,
                          opt_From = PubkeyToAddress w k\<rparr>
              (HexToAddress w toAddr) (parse_amount w v)])) \<and>
   (fst (Transfer w cfg toAddr v) = (h', None) \<longrightarrow>
      (\<exists>c a k chain tr.
         Dial w (LotusHTTPSAddr cfg) = Inr c \<and>
         NewAbi w (HexToAddress w (TitanContractorAddr cfg)) c = Inr a \<and>
         HexToECDSA w (PrivateKeyStr cfg) = Inr k \<and>
         NetworkID w c = Inr chain \<and>
         AbiTransfer w a \<lparr>Signer_chainID = chain, Signer_key = k, opt_From = PubkeyToAddress w k\<rparr>
           (HexToAddress w toAddr) (parse_amount w v) = Inr tr \<and>
         h' = Hash_Hex w (tx_Hash tr) \<and>
         snd (Transfer w cfg toAddr v) =
           [Call_Dial (LotusHTTPSAddr cfg),
            Call_NewAbi (HexToAddress w (TitanContractorAddr cfg)) c,
            Call_NetworkID c,
            Call_Transfer a \<lparr>Signer_chainID = chain, Signer_key = k,
                              opt_From = PubkeyToAddress w k\<rparr>
              (HexToAddress w toAddr) (parse_amount w v)])) \<and>
   Mint (w\<lparr>WatchTransfer := wt, EthGetMessageCidByTransactionHash := f,
           ChainGetMessage := g, StateSearchMsg := s\<rparr>) cfg toAddr v = Mint w cfg toAddr v \<and>
   Transfer (w\<lparr>WatchTransfer := wt, EthGetMessageCidByTransactionHash := f,
               ChainGetMessage := g, StateSearchMsg := s\<rparr>) cfg toAddr v =
     Transfer w cfg toAddr v"
  using Mint_submitted [of w cfg toAddr v h] Transfer_submitted [of w cfg toAddr v h']
  by (simp add: Mint_indep Transfer_indep)

theorem submission_hash_with_dynamic_chain_id_witness:
  "Mint world_hex cfg0 ''0xabc'' ''100'' =
     ((''0x07'', None),
      [Call_Dial ''https://node'', Call_NewAbi 4 1, Call_NetworkID 1,
       Call_Mint 2 \<lparr>Signer_chainID = 314, Signer_key = 1, opt_From = 9\<rparr> 4 100]) \<and>
   Transfer world_hex cfg0 ''0xabc'' ''100'' =
     ((''0x08'', None),
      [Call_Dial ''https://node'', Call_NewAbi 4 1, Call_NetworkID 1,
       Call_Transfer 2 \<lparr>Signer_chainID = 314, Signer_key = 1, opt_From = 9\<rparr> 4 100]) \<and>
   NetworkID world_hex 1 = Inr 314 \<and>
   Mint (world_hex\<lparr>WatchTransfer := WatchTransfer world_resub_fails,
                    EthGetMessageCidByTransactionHash := (\<lambda>_ _. Inl ''not found''),
                    ChainGetMessage := (\<lambda>_ _. Inl ''not found''),
                    StateSearchMsg := (\<lambda>_ _. Inl ''not found'')\<rparr>) cfg0 ''0xabc'' ''100'' =
     Mint world_hex cfg0 ''0xabc'' ''100'' \<and>
   Transfer (world_hex\<lparr>WatchTransfer := WatchTransfer world_resub_fails,
                        EthGetMessageCidByTransactionHash := (\<lambda>_ _. Inl ''not found''),
                        ChainGetMessage := (\<lambda>_ _. Inl ''not found''),
                        StateSearchMsg := (\<lambda>_ _. Inl ''not found'')\<rparr>) cfg0 ''0xabc'' ''100'' =
     Transfer world_hex cfg0 ''0xabc'' ''100''"
proof -
  have amount: "parse_amount world_hex ''100'' = 100"
    by (simp add: parse_amount_def SetString_def digitVal_def)
  have run: "Mint world_hex cfg0 ''0xabc'' ''100'' =
      ((''0x07'', None),
       [Call_Dial ''https://node'', Call_NewAbi 4 1, Call_NetworkID 1,
        Call_Mint 2 \<lparr>Signer_chainID = 314, Signer_key = 1, opt_From = 9\<rparr> 4 100])"
    "Transfer world_hex cfg0 ''0xabc'' ''100'' =
      ((''0x08'', None),
       [Call_Dial ''https://node'', Call_NewAbi 4 1, Call_NetworkID 1,
        Call_Transfer 2 \<lparr>Signer_chainID = 314, Signer_key = 1, opt_From = 9\<rparr> 4 100])"
    unfolding Mint_def Transfer_def amount
    by (simp_all add: world_hex_def world_ok_def cfg0_def)
  have net: "NetworkID world_hex 1 = Inr 314"
    by (simp add: world_hex_def world_ok_def)
  show ?thesis
    using run net
      submission_hash_with_dynamic_chain_id
        [where w = world_hex and cfg = cfg0 and toAddr = "''0xabc''" and v = "''100''"
           and h = "''0x07''" and h' = "''0x08''"
           and wt = "WatchTransfer world_resub_fails"
           and f = "\<lambda>_ _. Inl ''not found''" and g = "\<lambda>_ _. Inl ''not found''"
           and s = "\<lambda>_ _. Inl ''not found''"]
    by simp
qed

section \<open>Dry runs\<close>

lemma RunInstances_dry:
  "Call_RunInstances cl req \<in>
     set (snd (RunInstances E regionID keyID keySecret instanceType imageID password
                 securityGroupID periodUnit period)) \<Longrightarrow> ri_DryRun req"
  by (auto simp: RunInstances_def Let_def split: sum.splits)

lemma CreateInstance_dry:
  "Call_CreateInstance cl req \<in>
     set (snd (CreateInstance E regionID keyID keySecret instanceType imageID
                 securityGroupID periodUnit period dryRun)) \<Longrightarrow> ci_DryRun req = dryRun"
  by (auto simp: CreateInstance_def Let_def split: sum.splits)

text \<open>
  C9: whatever its arguments, once the client is created \<open>RunInstances\<close> submits exactly
  one request, built from its arguments with the dry-run flag set, whereas
  \<open>CreateInstance\<close> submits exactly one request that carries the caller's \<open>dryRun\<close>
  argument. When the client cannot be created, neither submits anything and both return
  the error. So every request of \<open>RunInstances\<close> is a dry run, and every request of
  \<open>CreateInstance\<close> has the caller's flag.
\<close>

theorem run_instances_always_dry_run:
  "(newClient E regionID keyID keySecret = Inr cl \<longrightarrow>
      snd (RunInstances E regionID keyID keySecret instanceType imageID password
             securityGroupID periodUnit period) =
        [Call_NewClient \<lparr>AccessKeyId = keyID, AccessKeySecret = keySecret, RegionId = regionID\<rparr>,
         Call_RunInstances cl
           \<lparr>ri_RegionId = regionID, ri_InstanceType = instanceType, ri_DryRun = True,
            ri_ImageId = imageID, ri_SecurityGroupId = securityGroupID,
            ri_InstanceChargeType = ''PrePaid'', ri_PeriodUnit = periodUnit,
            ri_Period = period, ri_Password = password,
            ri_InternetMaxBandwidthOut = 1, ri_InternetMaxBandwidthIn = 1\<rparr>] \<and>
      snd (CreateInstance E regionID keyID keySecret instanceType imageID
             securityGroupID periodUnit period dryRun) =
        [Call_NewClient \<lparr>AccessKeyId = keyID, AccessKeySecret = keySecret, RegionId = regionID\<rparr>,
         Call_CreateInstance cl
           \<lparr>ci_RegionId = regionID, ci_InstanceType = instanceType, ci_DryRun = dryRun,
            ci_ImageId = imageID, ci_SecurityGroupId = securityGroupID,
            ci_InstanceChargeType = ''PrePaid'', ci_PeriodUnit = periodUnit,
            ci_Period = period, ci_InternetMaxBandwidthOut = 1,
            ci_InternetMaxBandwidthIn = 1, ci_SystemDisk_Size = 20\<rparr>]) \<and>
   (newClient E regionID keyID keySecret = Inl err \<longrightarrow>
      RunInstances E regionID keyID keySecret instanceType imageID password
        securityGroupID periodUnit period =
        ((None, Some err),
         [Call_NewClient \<lparr>AccessKeyId = keyID, AccessKeySecret = keySecret,
                          RegionId = regionID\<rparr>]) \<and>
      CreateInstance E regionID keyID keySecret instanceType imageID
        securityGroupID periodUnit period dryRun =
        ((None, Some err),
         [Call_NewClient \<lparr>AccessKeyId = keyID, AccessKeySecret = keySecret,
                          RegionId = regionID\<rparr>])) \<and>
   (Call_RunInstances cl' req \<in>
      set (snd (RunInstances E regionID keyID keySecret instanceType imageID password
                  securityGroupID periodUnit period)) \<longrightarrow> ri_DryRun req) \<and>
   (Call_CreateInstance cl' req' \<in>
      set (snd (CreateInstance E regionID keyID keySecret instanceType imageID
                  securityGroupID periodUnit period dryRun)) \<longrightarrow> ci_DryRun req' = dryRun)"
proof -
  have A: "newClient E regionID keyID keySecret = Inr cl \<Longrightarrow>
      snd (RunInstances E regionID keyID keySecret instanceType imageID password
             securityGroupID periodUnit period) =
        [Call_NewClient \<lparr>AccessKeyId = keyID, AccessKeySecret = keySecret, RegionId = regionID\<rparr>,
         Call_RunInstances cl
           \<lparr>ri_RegionId = regionID, ri_InstanceType = instanceType, ri_DryRun = True,
            ri_ImageId = imageID, ri_SecurityGroupId = securityGroupID,
            ri_InstanceChargeType = ''PrePaid'', ri_PeriodUnit = periodUnit,
            ri_Period = period, ri_Password = password,
            ri_InternetMaxBandwidthOut = 1, ri_InternetMaxBandwidthIn = 1\<rparr>]"
    by (simp add: RunInstances_def Let_def split: sum.splits)
  have B: "newClient E regionID keyID keySecret = Inr cl \<Longrightarrow>
      snd (CreateInstance E regionID keyID keySecret instanceType imageID
             securityGroupID periodUnit period dryRun) =
        [Call_NewClient \<lparr>AccessKeyId = keyID, AccessKeySecret = keySecret, RegionId = regionID\<rparr>,
         Call_CreateInstance cl
           \<lparr>ci_RegionId = regionID, ci_InstanceType = instanceType, ci_DryRun = dryRun,
            ci_ImageId = imageID, ci_SecurityGroupId = securityGroupID,
            ci_InstanceChargeType = ''PrePaid'', ci_PeriodUnit = periodUnit,
            ci_Period = period, ci_InternetMaxBandwidthOut = 1,
            ci_InternetMaxBandwidthIn = 1, ci_SystemDisk_Size = 20\<rparr>]"
    by (simp add: CreateInstance_def Let_def split: sum.splits)
  have C: "newClient E regionID keyID keySecret = Inl err \<Longrightarrow>
      RunInstances E regionID keyID keySecret instanceType imageID password
        securityGroupID periodUnit period =
        ((None, Some err),
         [Call_NewClient \<lparr>AccessKeyId = keyID, AccessKeySecret = keySecret,
                          RegionId = regionID\<rparr>]) \<and>
      CreateInstance E regionID keyID keySecret instanceType imageID
        securityGroupID periodUnit period dryRun =
        ((None, Some err),
         [Call_NewClient \<lparr>AccessKeyId = keyID, AccessKeySecret = keySecret,
                          RegionId = regionID\<rparr>])"
    by (simp add: RunInstances_def CreateInstance_def)
  have D: "Call_RunInstances cl' req \<in>
      set (snd (RunInstances E regionID keyID keySecret instanceType imageID password
                  securityGroupID periodUnit period)) \<Longrightarrow> ri_DryRun req"
    by (rule RunInstances_dry)
  have E: "Call_CreateInstance cl' req' \<in>
      set (snd (CreateInstance E regionID keyID keySecret instanceType imageID
                  securityGroupID periodUnit period dryRun)) \<Longrightarrow> ci_DryRun req' = dryRun"
    by (rule CreateInstance_dry)
  show ?thesis
    using A B C D E by blast
qed

theorem run_instances_always_dry_run_witness:
  "newClient ecs_ok ''r'' ''k'' ''s'' = Inr 1 \<and>
   snd (RunInstances ecs_ok ''r'' ''k'' ''s'' ''t'' ''img'' ''pw'' ''sg'' ''Month'' 1) =
     [Call_NewClient \<lparr>AccessKeyId = ''k'', AccessKeySecret = ''s'', RegionId = ''r''\<rparr>,
      Call_RunInstances 1
        \<lparr>ri_RegionId = ''r'', ri_InstanceType = ''t'', ri_DryRun = True, ri_ImageId = ''img'',
         ri_SecurityGroupId = ''sg'', ri_InstanceChargeType = ''PrePaid'',
         ri_PeriodUnit = ''Month'', ri_Period = 1, ri_Password = ''pw'',
         ri_InternetMaxBandwidthOut = 1, ri_InternetMaxBandwidthIn = 1\<rparr>] \<and>
   snd (CreateInstance ecs_ok ''r'' ''k'' ''s'' ''t'' ''img'' ''sg'' ''Month'' 1 True) =
     [Call_NewClient \<lparr>AccessKeyId = ''k'', AccessKeySecret = ''s'', RegionId = ''r''\<rparr>,
      Call_CreateInstance 1
        \<lparr>ci_RegionId = ''r'', ci_InstanceType = ''t'', ci_DryRun = True, ci_ImageId = ''img'',
         ci_SecurityGroupId = ''sg'', ci_InstanceChargeType = ''PrePaid'',
         ci_PeriodUnit = ''Month'', ci_Period = 1, ci_InternetMaxBandwidthOut = 1,
         ci_InternetMaxBandwidthIn = 1, ci_SystemDisk_Size = 20\<rparr>] \<and>
   snd (CreateInstance ecs_ok ''r'' ''k'' ''s'' ''t'' ''img'' ''sg'' ''Month'' 1 False) =
     [Call_NewClient \<lparr>AccessKeyId = ''k'', AccessKeySecret = ''s'', RegionId = ''r''\<rparr>,
      Call_CreateInstance 1
        \<lparr>ci_RegionId = ''r'', ci_InstanceType = ''t'', ci_DryRun = False, ci_ImageId = ''img'',
         ci_SecurityGroupId = ''sg'', ci_InstanceChargeType = ''PrePaid'',
         ci_PeriodUnit = ''Month'', ci_Period = 1, ci_InternetMaxBandwidthOut = 1,
         ci_InternetMaxBandwidthIn = 1, ci_SystemDisk_Size = 20\<rparr>] \<and>
   newClient ecs_down ''r'' ''k'' ''s'' =
     Inl \<lparr>sdk_Code = None, sdk_Message = Some ''InvalidAccessKeyId''\<rparr> \<and>
   RunInstances ecs_down ''r'' ''k'' ''s'' ''t'' ''img'' ''pw'' ''sg'' ''Month'' 1 =
     ((None, Some \<lparr>sdk_Code = None, sdk_Message = Some ''InvalidAccessKeyId''\<rparr>),
      [Call_NewClient \<lparr>AccessKeyId = ''k'', AccessKeySecret = ''s'', RegionId = ''r''\<rparr>])"
proof -
  have ok: "newClient ecs_ok ''r'' ''k'' ''s'' = Inr 1"
    by (simp add: newClient_def ecs_ok_def)
  have down: "newClient ecs_down ''r'' ''k'' ''s'' =
      Inl \<lparr>sdk_Code = None, sdk_Message = Some ''InvalidAccessKeyId''\<rparr>"
    by (simp add: newClient_def ecs_down_def ecs_ok_def to_SDKError_def)
  show ?thesis
    using ok down
      run_instances_always_dry_run
        [where E = ecs_ok and regionID = "''r''" and keyID = "''k''" and keySecret = "''s''"
           and cl = 1 and instanceType = "''t''" and imageID = "''img''" and password = "''pw''"
           and securityGroupID = "''sg''" and periodUnit = "''Month''" and period = 1
           and dryRun = True]
      run_instances_always_dry_run
        [where E = ecs_ok and regionID = "''r''" and keyID = "''k''" and keySecret = "''s''"
           and cl = 1 and instanceType = "''t''" and imageID = "''img''" and password = "''pw''"
           and securityGroupID = "''sg''" and periodUnit = "''Month''" and period = 1
           and dryRun = False]
      run_instances_always_dry_run
        [where E = ecs_down and regionID = "''r''" and keyID = "''k''" and keySecret = "''s''"
           and err = "\<lparr>sdk_Code = None, sdk_Message = Some ''InvalidAccessKeyId''\<rparr>"
           and instanceType = "''t''" and imageID = "''img''" and password = "''pw''"
           and securityGroupID = "''sg''" and periodUnit = "''Month''" and period = 1]
    by simp
qed

section \<open>Checking a message\<close>

text \<open>
  C10: \<open>CheckMessage\<close> publishes exactly when the three lookups succeed and the receipt's
  exit code is 0. When the three lookups succeed it returns no error whatever the exit
  code; with exit code 0 its one publication is the transfer-watch event of the message,
  with any other exit code it publishes nothing.
\<close>

theorem check_message_publishes_iff_exit_zero:
  "((\<exists>p t. Pub p t \<in> set (snd (CheckMessage w cfg tx))) \<longleftrightarrow>
      (\<exists>c m i. EthGetMessageCidByTransactionHash w tx (LotusHTTPSAddr cfg) = Inr c \<and>
         ChainGetMessage w c (LotusHTTPSAddr cfg) = Inr m \<and>
         StateSearchMsg w c (LotusHTTPSAddr cfg) = Inr i \<and>
         ExitCode (lk_Receipt i) = 0)) \<and>
   (\<forall>c m i. EthGetMessageCidByTransactionHash w tx (LotusHTTPSAddr cfg) = Inr c \<and>
         ChainGetMessage w c (LotusHTTPSAddr cfg) = Inr m \<and>
         StateSearchMsg w c (LotusHTTPSAddr cfg) = Inr i \<longrightarrow>
      fst (CheckMessage w cfg tx) = None \<and>
      (ExitCode (lk_Receipt i) = 0 \<longrightarrow>
         filter is_Pub (snd (CheckMessage w cfg tx)) =
           [Pub (WatchP \<lparr>fw_ID = tx, fw_From = msg_From m, fw_To = msg_To m,
                          fw_Value = Int64 (msg_Value m)\<rparr>) EventTransferWatch]) \<and>
      (ExitCode (lk_Receipt i) \<noteq> 0 \<longrightarrow> filter is_Pub (snd (CheckMessage w cfg tx)) = []))"
  by (auto simp: CheckMessage_def Let_def split: sum.splits)

theorem check_message_publishes_iff_exit_zero_witness:
  "CheckMessage world_exit1 cfg0 ''0xabc'' =
     (None, [Call_EthGetMessageCid ''0xabc'' ''https://node'',
             Call_ChainGetMessage ''cid'' ''https://node'',
             Call_StateSearchMsg ''cid'' ''https://node'']) \<and>
   fst (CheckMessage world_ok cfg0 ''0xabc'') = None \<and>
   filter is_Pub (snd (CheckMessage world_ok cfg0 ''0xabc'')) =
     [Pub (WatchP \<lparr>fw_ID = ''0xabc'', fw_From = ''f1'', fw_To = ''f2'', fw_Value = 5\<rparr>)
        EventTransferWatch]"
  using check_message_publishes_iff_exit_zero [of world_exit1 cfg0 "''0xabc''"]
    check_message_publishes_iff_exit_zero [of world_ok cfg0 "''0xabc''"]
  by (simp add: CheckMessage_def world_exit1_def world_ok_def cfg0_def Int64_def)

end
